theory Spec2Isabelle
  imports Complex_Main
begin

section \<open>Strings of the host language\<close>

text \<open>
  A string is a list of characters. \<open>toLowerCase\<close> folds the ASCII letters
  \<open>A\<close>..\<open>Z\<close>; every other character is kept. \<open>String_includes\<close> is the substring
  test of \<^verbatim>\<open>String.prototype.includes\<close>: it scans the positions of the
  haystack from the left and compares the needle at each of them.
\<close>

definition toLowerChar :: "char \<Rightarrow> char" where
  "toLowerChar c =
     (case map_of (zip ''ABCDEFGHIJKLMNOPQRSTUVWXYZ'' ''abcdefghijklmnopqrstuvwxyz'') c of
        Some l \<Rightarrow> l
      | None \<Rightarrow> c)"

definition toLowerCase :: "string \<Rightarrow> string" where
  "toLowerCase s = map toLowerChar s"

fun startsWith :: "string \<Rightarrow> string \<Rightarrow> bool" where
  "startsWith s [] = True"
| "startsWith [] (y # ys) = False"
| "startsWith (x # xs) (y # ys) = (x = y \<and> startsWith xs ys)"

fun String_includes :: "string \<Rightarrow> string \<Rightarrow> bool" where
  "String_includes [] needle = (needle = [])"
| "String_includes (x # xs) needle = (startsWith (x # xs) needle \<or> String_includes xs needle)"

section \<open>SearchableSelect.jsx: the filtered option list\<close>

text \<open>
  The accessors \<open>getOptionLabel\<close> and \<open>getOptionValue\<close> are supplied by the caller
  and may throw; a throwing call is the value \<open>None\<close> (for the label, so is an
  answer that is not a string, on which \<open>toLowerCase\<close> throws). The callback of
  \<^verbatim>\<open>options.filter\<close> catches the exception and answers \<open>false\<close>:
  \<^verbatim>\<open>
  const filteredOptions = Array.isArray(options) ? options.filter(opt => {
    try {
      const label = getOptionLabel(opt).toLowerCase();
      return label.includes(searchTerm.toLowerCase());
    } catch (e) { console.error(...); return false; }
  }) : [];
  \<close>
  \<open>Array.prototype.filter\<close> walks the array from index 0 upwards and appends the
  elements the callback accepts.
\<close>

definition filterCallback :: "('o \<Rightarrow> string option) \<Rightarrow> string \<Rightarrow> 'o \<Rightarrow> bool" where
  "filterCallback getOptionLabel searchTerm opt =
     (case getOptionLabel opt of
        None \<Rightarrow> False
      | Some l \<Rightarrow> String_includes (toLowerCase l) (toLowerCase searchTerm))"

fun filteredOptions :: "('o \<Rightarrow> string option) \<Rightarrow> string \<Rightarrow> 'o list \<Rightarrow> 'o list" where
  "filteredOptions getOptionLabel searchTerm [] = []"
| "filteredOptions getOptionLabel searchTerm (opt # options) =
     (if filterCallback getOptionLabel searchTerm opt
      then opt # filteredOptions getOptionLabel searchTerm options
      else filteredOptions getOptionLabel searchTerm options)"

text \<open>
  The specification's reading of the same list: the options that have a label
  whose lower-case form contains the lower-case query somewhere, in the order
  of \<open>options\<close>.
\<close>

definition containsSubstring :: "string \<Rightarrow> string \<Rightarrow> bool" where
  "containsSubstring s q = (\<exists>ps ss. s = ps @ q @ ss)"

definition spec_filteredOptions :: "('o \<Rightarrow> string option) \<Rightarrow> string \<Rightarrow> 'o list \<Rightarrow> 'o list" where
  "spec_filteredOptions labelOf query options =
     filter (\<lambda>o'. \<exists>l. labelOf o' = Some l \<and> containsSubstring (toLowerCase l) (toLowerCase query))
       options"

section \<open>SearchableSelect.jsx: state and event handlers\<close>

text \<open>
  The component keeps three pieces of React state (\<open>isOpen\<close>, \<open>searchTerm\<close>,
  \<open>highlightedIndex\<close>, initially \<open>false\<close>, the empty string and \<open>-1\<close>). The only
  effect a handler has outside that state is the call of the caller's \<open>onChange\<close>;
  \<open>onChangeCalls\<close> records the arguments of these calls in order. It is a trace of
  what the caller observes, not a field of the component.

  The props: \<open>getOptionLabel\<close> and \<open>getOptionValue\<close> answer \<open>None\<close> when they throw;
  \<open>onChange v\<close> is \<open>True\<close> when the callback returns and \<open>False\<close> when it throws.
  \<open>truthy opt\<close> tells whether the option is a truthy value of the host
  language (every object is; the empty string, \<open>0\<close> and \<open>null\<close> are not): the
  Enter key tests \<open>filteredOptions[highlightedIndex]\<close> itself, which is
  \<open>undefined\<close>, and so falsy, at an index beyond the list.
\<close>

record 'v combobox =
  isOpen :: bool
  searchTerm :: string
  highlightedIndex :: int
  onChangeCalls :: "'v list"

record ('o, 'v) props =
  options :: "'o list"
  getOptionLabel :: "'o \<Rightarrow> string option"
  getOptionValue :: "'o \<Rightarrow> 'v option"
  onChange :: "'v \<Rightarrow> bool"
  disabled :: bool
  truthy :: "'o \<Rightarrow> bool"

datatype key = Enter | ArrowDown | ArrowUp | Escape | OtherKey

definition initialCombobox :: "'v combobox" where
  "initialCombobox = \<lparr>isOpen = False, searchTerm = [], highlightedIndex = -1, onChangeCalls = []\<rparr>"

definition visibleOptions :: "('o, 'v) props \<Rightarrow> 'v combobox \<Rightarrow> 'o list" where
  "visibleOptions P s = filteredOptions (getOptionLabel P) (searchTerm s) (options P)"

text \<open>
  \<^verbatim>\<open>
  const handleSelect = (option) => {
    try {
      const optionValue = getOptionValue(option);
      onChange(optionValue);
      setIsOpen(false); setSearchTerm(''); setHighlightedIndex(-1);
    } catch (e) { console.error('Error selecting option:', e); }
  };
  \<close>
  An exception of \<open>getOptionValue\<close> or of \<open>onChange\<close> leaves the \<open>try\<close> block before
  the three setters; the \<open>catch\<close> only logs. The handler itself never throws, so it
  is a total function on states.
\<close>

definition handleSelect :: "('o, 'v) props \<Rightarrow> 'o \<Rightarrow> 'v combobox \<Rightarrow> 'v combobox" where
  "handleSelect P option s =
     (case getOptionValue P option of
        None \<Rightarrow> s
      | Some optionValue \<Rightarrow>
          (let s1 = s\<lparr>onChangeCalls := onChangeCalls s @ [optionValue]\<rparr>
           in if onChange P optionValue
              then s1\<lparr>isOpen := False, searchTerm := [], highlightedIndex := -1\<rparr>
              else s1))"

text \<open>
  \<^verbatim>\<open>
  const handleKeyDown = (e) => {
    if (disabled) return;
    if (e.key === 'Enter') {
      if (highlightedIndex >= 0 && filteredOptions[highlightedIndex]) {
        handleSelect(filteredOptions[highlightedIndex]);
      } else if (isOpen) { setIsOpen(false); } else { setIsOpen(true); }
    } else if (e.key === 'ArrowDown') {
      if (!isOpen) { setIsOpen(true); }
      else { setHighlightedIndex(prev => prev < filteredOptions.length - 1 ? prev + 1 : prev); }
    } else if (e.key === 'ArrowUp') {
      setHighlightedIndex(prev => prev > 0 ? prev - 1 : 0);
    } else if (e.key === 'Escape') {
      setIsOpen(false); setSearchTerm(''); setHighlightedIndex(-1);
    }
  };
  \<close>
\<close>

definition handleKeyDown :: "('o, 'v) props \<Rightarrow> key \<Rightarrow> 'v combobox \<Rightarrow> 'v combobox" where
  "handleKeyDown P k s =
     (if disabled P then s
      else case k of
        Enter \<Rightarrow>
          (if highlightedIndex s \<ge> 0 \<and> nat (highlightedIndex s) < length (visibleOptions P s)
                \<and> truthy P (visibleOptions P s ! nat (highlightedIndex s))
           then handleSelect P (visibleOptions P s ! nat (highlightedIndex s)) s
           else if isOpen s then s\<lparr>isOpen := False\<rparr>
           else s\<lparr>isOpen := True\<rparr>)
      | ArrowDown \<Rightarrow>
          (if \<not> isOpen s then s\<lparr>isOpen := True\<rparr>
           else s\<lparr>highlightedIndex :=
                  (if highlightedIndex s < int (length (visibleOptions P s)) - 1
                   then highlightedIndex s + 1 else highlightedIndex s)\<rparr>)
      | ArrowUp \<Rightarrow>
          s\<lparr>highlightedIndex := (if highlightedIndex s > 0 then highlightedIndex s - 1 else 0)\<rparr>
      | Escape \<Rightarrow> s\<lparr>isOpen := False, searchTerm := [], highlightedIndex := -1\<rparr>
      | OtherKey \<Rightarrow> s)"

text \<open>
  The document-level \<open>mousedown\<close> listener closes and resets the widget when the
  target lies outside the component (\<open>outside\<close>); \<open>handleInputChange\<close>,
  \<open>handleFocus\<close> and the \<open>onClick\<close> of the field (\<open>toggleClick\<close>) follow the source
  line by line.
\<close>

definition handleClickOutside :: "bool \<Rightarrow> 'v combobox \<Rightarrow> 'v combobox" where
  "handleClickOutside outside s =
     (if outside then s\<lparr>isOpen := False, searchTerm := [], highlightedIndex := -1\<rparr> else s)"

definition handleInputChange :: "string \<Rightarrow> 'v combobox \<Rightarrow> 'v combobox" where
  "handleInputChange v s =
     (let s1 = s\<lparr>searchTerm := v, highlightedIndex := -1\<rparr>
      in if \<not> isOpen s then s1\<lparr>isOpen := True\<rparr> else s1)"

definition handleFocus :: "('o, 'v) props \<Rightarrow> 'v combobox \<Rightarrow> 'v combobox" where
  "handleFocus P s = (if \<not> disabled P then s\<lparr>isOpen := True, searchTerm := []\<rparr> else s)"

definition toggleClick :: "('o, 'v) props \<Rightarrow> 'v combobox \<Rightarrow> 'v combobox" where
  "toggleClick P s = (if \<not> disabled P then s\<lparr>isOpen := \<not> isOpen s\<rparr> else s)"

text \<open>
  The events the rendered component can receive. The list items exist only while
  the list is rendered (\<open>isOpen && !disabled\<close>), one per filtered option: a click on
  item \<open>i\<close> selects that option, the pointer entering it highlights it. The text
  field is \<open>readOnly\<close> while the widget is closed and \<open>disabled\<close> with the widget, so
  it reports edits only when open and enabled.
\<close>

datatype combobox_event =
    KeyDown key
  | InputChange string
  | Focus
  | ToggleClick
  | DocumentMouseDown bool
  | OptionClick nat
  | OptionMouseEnter nat

definition combobox_step :: "('o, 'v) props \<Rightarrow> 'v combobox \<Rightarrow> combobox_event \<Rightarrow> 'v combobox" where
  "combobox_step P s e =
     (case e of
        KeyDown k \<Rightarrow> handleKeyDown P k s
      | InputChange v \<Rightarrow> (if isOpen s \<and> \<not> disabled P then handleInputChange v s else s)
      | Focus \<Rightarrow> handleFocus P s
      | ToggleClick \<Rightarrow> toggleClick P s
      | DocumentMouseDown outside \<Rightarrow> handleClickOutside outside s
      | OptionClick i \<Rightarrow>
          (if isOpen s \<and> \<not> disabled P \<and> i < length (visibleOptions P s)
           then handleSelect P (visibleOptions P s ! i) s else s)
      | OptionMouseEnter i \<Rightarrow>
          (if isOpen s \<and> \<not> disabled P \<and> i < length (visibleOptions P s)
           then s\<lparr>highlightedIndex := int i\<rparr> else s))"

definition combobox_run :: "('o, 'v) props \<Rightarrow> combobox_event list \<Rightarrow> 'v combobox" where
  "combobox_run P es = foldl (combobox_step P) initialCombobox es"

section \<open>Numbers of the host language\<close>

text \<open>
  A JavaScript number is \<open>NaN\<close>, one of the two infinities, or a finite value.
  Finite values are carried as exact rationals: the rounding of binary64, the
  overflow of a finite result to an infinity and the sign of zero are not
  represented (a zero divisor is read as \<open>+0\<close>). What the development proves about
  the layout depends on the special values and on the order of numbers only.

  The operators follow IEEE 754 on the special values: \<open>NaN\<close> is contagious,
  \<open>Infinity - Infinity\<close>, \<open>0 / 0\<close>, \<open>Infinity / Infinity\<close> and \<open>0 * Infinity\<close> are
  \<open>NaN\<close>, and a non-zero finite value divided by zero is an infinity of its sign.
  \<open>Math.max\<close> and \<open>Math.min\<close> answer \<open>NaN\<close> as soon as one argument is \<open>NaN\<close>.
\<close>

datatype jsnum = NaN | NegInfinity | Fin rat | Infinity

fun js_minus :: "jsnum \<Rightarrow> jsnum \<Rightarrow> jsnum" where
  "js_minus NaN b = NaN"
| "js_minus a NaN = NaN"
| "js_minus (Fin a) (Fin b) = Fin (a - b)"
| "js_minus (Fin a) Infinity = NegInfinity"
| "js_minus (Fin a) NegInfinity = Infinity"
| "js_minus Infinity Infinity = NaN"
| "js_minus Infinity b = Infinity"
| "js_minus NegInfinity NegInfinity = NaN"
| "js_minus NegInfinity b = NegInfinity"

fun js_divide :: "jsnum \<Rightarrow> jsnum \<Rightarrow> jsnum" where
  "js_divide NaN b = NaN"
| "js_divide a NaN = NaN"
| "js_divide (Fin a) (Fin b) =
     (if b = 0 then (if a = 0 then NaN else if a > 0 then Infinity else NegInfinity)
      else Fin (a / b))"
| "js_divide (Fin a) b = Fin 0"
| "js_divide Infinity (Fin b) = (if b \<ge> 0 then Infinity else NegInfinity)"
| "js_divide NegInfinity (Fin b) = (if b \<ge> 0 then NegInfinity else Infinity)"
| "js_divide a b = NaN"

fun js_times :: "jsnum \<Rightarrow> jsnum \<Rightarrow> jsnum" where
  "js_times NaN b = NaN"
| "js_times a NaN = NaN"
| "js_times (Fin a) (Fin b) = Fin (a * b)"
| "js_times (Fin a) Infinity = (if a = 0 then NaN else if a > 0 then Infinity else NegInfinity)"
| "js_times (Fin a) NegInfinity = (if a = 0 then NaN else if a > 0 then NegInfinity else Infinity)"
| "js_times Infinity (Fin b) = (if b = 0 then NaN else if b > 0 then Infinity else NegInfinity)"
| "js_times NegInfinity (Fin b) = (if b = 0 then NaN else if b > 0 then NegInfinity else Infinity)"
| "js_times Infinity Infinity = Infinity"
| "js_times NegInfinity NegInfinity = Infinity"
| "js_times a b = NegInfinity"

text \<open>\<open>js_less a b\<close> is the comparison \<open>a < b\<close>; it is false when an operand is \<open>NaN\<close>.\<close>

fun js_less :: "jsnum \<Rightarrow> jsnum \<Rightarrow> bool" where
  "js_less NaN b = False"
| "js_less a NaN = False"
| "js_less (Fin a) (Fin b) = (a < b)"
| "js_less a NegInfinity = False"
| "js_less NegInfinity b = True"
| "js_less Infinity b = False"
| "js_less a Infinity = True"

definition Math_max :: "jsnum \<Rightarrow> jsnum \<Rightarrow> jsnum" where
  "Math_max a b = (if a = NaN \<or> b = NaN then NaN else if js_less a b then b else a)"

definition Math_min :: "jsnum \<Rightarrow> jsnum \<Rightarrow> jsnum" where
  "Math_min a b = (if a = NaN \<or> b = NaN then NaN else if js_less b a then b else a)"

subsection \<open>parseFloat\<close>

text \<open>
  \<open>parseFloat\<close> skips leading white space (the ASCII white space characters;
  strings are lists of 8-bit characters), reads the longest prefix that is a
  decimal literal (an optional sign, then \<open>Infinity\<close> or digits with an optional
  fraction and an optional exponent) and ignores what follows. Without such a
  prefix the result is \<open>NaN\<close>. An exponent indicator that no digit follows is not
  part of the literal.
\<close>

definition isStrWhiteSpaceChar :: "char \<Rightarrow> bool" where
  "isStrWhiteSpaceChar c = ((of_char c :: nat) \<in> {9, 10, 11, 12, 13, 32})"

definition isDecimalDigit :: "char \<Rightarrow> bool" where
  "isDecimalDigit c = (48 \<le> (of_char c :: nat) \<and> (of_char c :: nat) \<le> 57)"

definition digitsValue :: "string \<Rightarrow> nat" where
  "digitsValue ds = foldl (\<lambda>a c. 10 * a + (of_char c - 48)) 0 ds"

definition signedInteger :: "string \<Rightarrow> int option" where
  "signedInteger r =
     (case r of
        [] \<Rightarrow> None
      | c # r' \<Rightarrow>
          (let negative = (c = CHR ''-'');
               ds = takeWhile isDecimalDigit (if c = CHR ''-'' \<or> c = CHR ''+'' then r' else r)
           in if ds = [] then None
              else Some (if negative then - int (digitsValue ds) else int (digitsValue ds))))"

definition exponentPart :: "string \<Rightarrow> int" where
  "exponentPart r =
     (case r of
        [] \<Rightarrow> 0
      | c # r' \<Rightarrow>
          (if c = CHR ''e'' \<or> c = CHR ''E''
           then (case signedInteger r' of None \<Rightarrow> 0 | Some n \<Rightarrow> n)
           else 0))"

definition scale10 :: "rat \<Rightarrow> int \<Rightarrow> rat" where
  "scale10 m e = (if e \<ge> 0 then m * 10 ^ nat e else m / 10 ^ nat (- e))"

definition unsignedDecimalLiteral :: "string \<Rightarrow> rat option" where
  "unsignedDecimalLiteral u =
     (let ip = takeWhile isDecimalDigit u;
          r1 = dropWhile isDecimalDigit u;
          hasDot = (r1 \<noteq> [] \<and> hd r1 = CHR ''.'');
          fp = (if hasDot then takeWhile isDecimalDigit (tl r1) else []);
          r2 = (if hasDot then dropWhile isDecimalDigit (tl r1) else r1)
      in if ip = [] \<and> fp = [] then None
         else Some (scale10 (of_nat (digitsValue (ip @ fp)) / 10 ^ length fp) (exponentPart r2)))"

definition parseFloat :: "string \<Rightarrow> jsnum" where
  "parseFloat inputString =
     (let trimmed = dropWhile isStrWhiteSpaceChar inputString;
          negative = (trimmed \<noteq> [] \<and> hd trimmed = CHR ''-'');
          signed = (trimmed \<noteq> [] \<and> (hd trimmed = CHR ''-'' \<or> hd trimmed = CHR ''+''));
          u = (if signed then tl trimmed else trimmed)
      in if take 8 u = ''Infinity'' then (if negative then NegInfinity else Infinity)
         else (case unsignedDecimalLiteral u of
                 None \<Rightarrow> NaN
               | Some m \<Rightarrow> Fin (if negative then - m else m)))"

section \<open>App.jsx: the layout state\<close>

text \<open>
  The state of \<open>App\<close> that the layout depends on, under the names of the source.
  \<open>localStorage\<close> is a partial map from keys to strings (\<open>getItem\<close> answers \<open>null\<close>
  for a missing key); a string is truthy when it is not empty.
  \<^verbatim>\<open>
  const [chatbotWidth, setChatbotWidth] = useState(() => {
    const saved = localStorage.getItem('chatbotWidth');
    return saved ? parseFloat(saved) : 20;
  });
  const [isDesktop, setIsDesktop] = useState(window.innerWidth >= 1024);
  const [isChatbotVisible, setIsChatbotVisible] = useState(() => {
    const saved = localStorage.getItem('chatbotVisible');
    return saved ? saved === 'true' : true;
  });
  const [isAnalysisCollapsed, setIsAnalysisCollapsed] = useState(false);
  const [isChatbotCollapsed, setIsChatbotCollapsed] = useState(false);
  const [isResizing, setIsResizing] = useState(false);
  \<close>
\<close>

record app =
  chatbotWidth :: jsnum
  isDesktop :: bool
  isChatbotVisible :: bool
  isAnalysisCollapsed :: bool
  isChatbotCollapsed :: bool
  isResizing :: bool

type_synonym storage = "string \<rightharpoonup> string"

definition initChatbotWidth :: "storage \<Rightarrow> jsnum" where
  "initChatbotWidth localStorage =
     (case localStorage ''chatbotWidth'' of
        None \<Rightarrow> Fin 20
      | Some saved \<Rightarrow> if saved \<noteq> [] then parseFloat saved else Fin 20)"

definition initChatbotVisible :: "storage \<Rightarrow> bool" where
  "initChatbotVisible localStorage =
     (case localStorage ''chatbotVisible'' of
        None \<Rightarrow> True
      | Some saved \<Rightarrow> if saved \<noteq> [] then saved = ''true'' else True)"

definition App_init :: "storage \<Rightarrow> int \<Rightarrow> app" where
  "App_init localStorage innerWidth =
     \<lparr>chatbotWidth = initChatbotWidth localStorage,
      isDesktop = (innerWidth \<ge> 1024),
      isChatbotVisible = initChatbotVisible localStorage,
      isAnalysisCollapsed = False,
      isChatbotCollapsed = False,
      isResizing = False\<rparr>"

text \<open>
  Two effects save the preferences, in this order, after the first render and
  after every render that changed the value:
  \<^verbatim>\<open>
  useEffect(() => {
    localStorage.setItem('chatbotWidth', chatbotWidth.toString());
  }, [chatbotWidth]);
  useEffect(() => {
    localStorage.setItem('chatbotVisible', isChatbotVisible.toString());
  }, [isChatbotVisible]);
  \<close>
  On a boolean \<open>toString\<close> gives the string \<open>true\<close> or \<open>false\<close>. On a number it is
  \<open>Number.prototype.toString\<close> of the host, which the effect takes as the
  parameter \<open>Number_toString\<close>. The contract of that function is that its string
  is not empty and denotes the number it was given, so that \<open>parseFloat\<close> reads
  the number back (\<open>NaN\<close> and the infinities print as their names);
  \<open>readsBack\<close> states the contract at one number.
\<close>

definition Boolean_toString :: "bool \<Rightarrow> string" where
  "Boolean_toString b = (if b then ''true'' else ''false'')"

definition saveChatbotVisible :: "app \<Rightarrow> storage \<Rightarrow> storage" where
  "saveChatbotVisible s localStorage =
     localStorage(''chatbotVisible'' \<mapsto> Boolean_toString (isChatbotVisible s))"

definition saveChatbotWidth :: "(jsnum \<Rightarrow> string) \<Rightarrow> app \<Rightarrow> storage \<Rightarrow> storage" where
  "saveChatbotWidth Number_toString s localStorage =
     localStorage(''chatbotWidth'' \<mapsto> Number_toString (chatbotWidth s))"

definition savePreferences :: "(jsnum \<Rightarrow> string) \<Rightarrow> app \<Rightarrow> storage \<Rightarrow> storage" where
  "savePreferences Number_toString s localStorage =
     saveChatbotVisible s (saveChatbotWidth Number_toString s localStorage)"


subsection \<open>Collapse and expand\<close>

definition handleCollapseAnalysis :: "app \<Rightarrow> app" where
  "handleCollapseAnalysis s =
     s\<lparr>isAnalysisCollapsed := True, isChatbotCollapsed := False, chatbotWidth := Fin 95\<rparr>"

definition handleCollapseChatbot :: "app \<Rightarrow> app" where
  "handleCollapseChatbot s =
     s\<lparr>isChatbotCollapsed := True, isAnalysisCollapsed := False, chatbotWidth := Fin 5\<rparr>"

definition handleExpandBoth :: "app \<Rightarrow> app" where
  "handleExpandBoth s =
     s\<lparr>isAnalysisCollapsed := False, isChatbotCollapsed := False, chatbotWidth := Fin 20\<rparr>"

subsection \<open>Dragging the separator\<close>

text \<open>
  \<open>resizeRef.current\<close> is the separator element or \<open>null\<close>; the element has a parent
  or none; \<open>getBoundingClientRect\<close> of the parent gives \<open>left\<close> and \<open>width\<close>.
  \<^verbatim>\<open>
  const handleMouseMove = (e) => {
    if (!isResizing || !resizeRef.current) return;
    const container = resizeRef.current.parentElement;
    if (!container) return;
    const containerRect = container.getBoundingClientRect();
    const newWidth = ((containerRect.width - (e.clientX - containerRect.left))
                      / containerRect.width) * 100;
    const constrainedWidth = Math.max(5, Math.min(95, newWidth));
    setChatbotWidth(constrainedWidth);
  };
  const handleMouseUp = () => { setIsResizing(false); };
  \<close>
  An earlier revision of the file differs in the constants only (25, 60 and the
  default 33.33) and has neither the collapse handlers nor the visibility flag.
\<close>

record DOMRect =
  left :: jsnum
  width :: jsnum

datatype element = Element (parentElement: "DOMRect option")

definition newWidth :: "DOMRect \<Rightarrow> jsnum \<Rightarrow> jsnum" where
  "newWidth containerRect clientX =
     js_times
       (js_divide (js_minus (width containerRect) (js_minus clientX (left containerRect)))
          (width containerRect))
       (Fin 100)"

definition handleMouseMove :: "app \<Rightarrow> element option \<Rightarrow> jsnum \<Rightarrow> app" where
  "handleMouseMove s resizeRef clientX =
     (if \<not> isResizing s \<or> resizeRef = None then s
      else case parentElement (the resizeRef) of
             None \<Rightarrow> s
           | Some containerRect \<Rightarrow>
               s\<lparr>chatbotWidth := Math_max (Fin 5) (Math_min (Fin 95) (newWidth containerRect clientX))\<rparr>)"

definition handleMouseUp :: "app \<Rightarrow> app" where
  "handleMouseUp s = s\<lparr>isResizing := False\<rparr>"

definition handleResize :: "int \<Rightarrow> app \<Rightarrow> app" where
  "handleResize innerWidth s = s\<lparr>isDesktop := (innerWidth \<ge> 1024)\<rparr>"

text \<open>
  The events of the layout: the visibility button, the three collapse and
  expand buttons, the press on the separator (\<open>setIsResizing(true)\<close>), the
  document-level pointer events and the resize of the window. The model accepts
  every event in every state; the rendered page offers fewer (the separator and
  the buttons are hidden in some states), so what holds of every run of the
  model holds of every run of the page.
\<close>

datatype layout_event =
    ToggleChatbot
  | CollapseAnalysis
  | CollapseChatbot
  | ExpandBoth
  | SeparatorMouseDown
  | MouseMove "element option" jsnum
  | MouseUp
  | WindowResize int

definition layout_step :: "app \<Rightarrow> layout_event \<Rightarrow> app" where
  "layout_step s e =
     (case e of
        ToggleChatbot \<Rightarrow> s\<lparr>isChatbotVisible := \<not> isChatbotVisible s\<rparr>
      | CollapseAnalysis \<Rightarrow> handleCollapseAnalysis s
      | CollapseChatbot \<Rightarrow> handleCollapseChatbot s
      | ExpandBoth \<Rightarrow> handleExpandBoth s
      | SeparatorMouseDown \<Rightarrow> s\<lparr>isResizing := True\<rparr>
      | MouseMove resizeRef clientX \<Rightarrow> handleMouseMove s resizeRef clientX
      | MouseUp \<Rightarrow> handleMouseUp s
      | WindowResize innerWidth \<Rightarrow> handleResize innerWidth s)"

definition layout_run :: "app \<Rightarrow> layout_event list \<Rightarrow> app" where
  "layout_run s es = foldl layout_step s es"

text \<open>
  The range of the width, and the events whose raw width is a number: a pointer
  move that reaches the computation with a \<open>NaN\<close> raw width is the only event
  excluded.
\<close>

definition inRange :: "jsnum \<Rightarrow> bool" where
  "inRange w = (case w of Fin r \<Rightarrow> 5 \<le> r \<and> r \<le> 95 | _ \<Rightarrow> False)"

definition rawWidthIsNumber :: "layout_event \<Rightarrow> bool" where
  "rawWidthIsNumber e =
     (case e of
        MouseMove (Some (Element (Some containerRect))) clientX \<Rightarrow>
          newWidth containerRect clientX \<noteq> NaN
      | _ \<Rightarrow> True)"

definition savedWidthInRange :: "storage \<Rightarrow> bool" where
  "savedWidthInRange localStorage =
     (case localStorage ''chatbotWidth'' of
        None \<Rightarrow> True
      | Some saved \<Rightarrow> saved = [] \<or> inRange (parseFloat saved))"

section \<open>Example inputs\<close>

text \<open>
  The option list of the specification's example, with accessors that never
  throw and a callback that returns; the same with accessors and a callback
  that throw; the same on a disabled widget; and the layout during a drag: a
  fresh \<open>App\<close> on an empty store and a wide window, after the press on the
  separator.
\<close>

definition exampleProps :: "(nat \<times> string, nat) props" where
  "exampleProps =
     \<lparr>options = [(1, ''Alpha''), (2, ''Beta'')],
      getOptionLabel = (\<lambda>opt. Some (snd opt)),
      getOptionValue = (\<lambda>opt. Some (fst opt)),
      onChange = (\<lambda>v. True),
      disabled = False,
      truthy = (\<lambda>opt. True)\<rparr>"

definition throwingProps :: "(nat \<times> string, nat) props" where
  "throwingProps =
     \<lparr>options = [(1, ''Alpha''), (2, ''Beta'')],
      getOptionLabel = (\<lambda>opt. Some (snd opt)),
      getOptionValue = (\<lambda>opt. if fst opt = 1 then None else Some (fst opt)),
      onChange = (\<lambda>v. False),
      disabled = False,
      truthy = (\<lambda>opt. True)\<rparr>"


definition draggingApp :: app where
  "draggingApp = layout_run (App_init Map.empty 1280) [SeparatorMouseDown]"

definition container :: "rat \<Rightarrow> rat \<Rightarrow> element option" where
  "container l w = Some (Element (Some \<lparr>left = Fin l, width = Fin w\<rparr>))"







section \<open>Substring search\<close>

lemma startsWith_append: "startsWith s q = (\<exists>ss. s = q @ ss)"
  by (induction s q rule: startsWith.induct) auto

lemma includes_containsSubstring: "String_includes s q = containsSubstring s q"
proof (induction s)
  case Nil
  show ?case by (auto simp: containsSubstring_def)
next
  case (Cons x xs)
  show ?case
  proof
    assume "String_includes (x # xs) q"
    then consider "startsWith (x # xs) q" | "String_includes xs q" by auto
    then show "containsSubstring (x # xs) q"
    proof cases
      case 1
      then obtain ss where "x # xs = q @ ss" by (auto simp: startsWith_append)
      then have "x # xs = [] @ q @ ss" by simp
      then show ?thesis unfolding containsSubstring_def by blast
    next
      case 2
      then obtain ps ss where "xs = ps @ q @ ss" using Cons by (auto simp: containsSubstring_def)
      then have "x # xs = (x # ps) @ q @ ss" by simp
      then show ?thesis unfolding containsSubstring_def by blast
    qed
  next
    assume "containsSubstring (x # xs) q"
    then obtain ps ss where eq: "x # xs = ps @ q @ ss" by (auto simp: containsSubstring_def)
    show "String_includes (x # xs) q"
    proof (cases ps)
      case Nil
      then have "startsWith (x # xs) q" using eq by (auto simp: startsWith_append)
      then show ?thesis by simp
    next
      case (Cons p ps')
      then have "xs = ps' @ q @ ss" using eq by simp
      then have "containsSubstring xs q" unfolding containsSubstring_def by blast
      then show ?thesis using Cons.IH by simp
    qed
  qed
qed

lemma includes_empty: "String_includes s []"
  by (cases s) auto

lemma filteredOptions_filter:
  "filteredOptions labelOf q opts = filter (filterCallback labelOf q) opts"
  by (induction opts) auto

section \<open>The filtered list is the specified one\<close>

text \<open>
  C4. \<open>filteredOptions\<close> is exactly the list of the options whose label, in lower
  case, contains the query in lower case as a substring, in the order of
  \<open>options\<close> (an option whose label accessor throws has no label and is left
  out). For the empty query, when the label accessor answers on every option,
  the filtered list is \<open>options\<close> itself.
\<close>

theorem filteredOptions_spec:
  "filteredOptions labelOf q opts = spec_filteredOptions labelOf q opts \<and>
   ((\<forall>opt \<in> set opts. labelOf opt \<noteq> None) \<longrightarrow> filteredOptions labelOf [] opts = opts)"
proof
  have "filterCallback labelOf q =
          (\<lambda>o'. \<exists>l. labelOf o' = Some l \<and> containsSubstring (toLowerCase l) (toLowerCase q))"
    by (auto simp: filterCallback_def includes_containsSubstring fun_eq_iff split: option.splits)
  then show "filteredOptions labelOf q opts = spec_filteredOptions labelOf q opts"
    by (simp add: filteredOptions_filter spec_filteredOptions_def)
next
  show "(\<forall>opt \<in> set opts. labelOf opt \<noteq> None) \<longrightarrow> filteredOptions labelOf [] opts = opts"
  proof
    assume total: "\<forall>opt \<in> set opts. labelOf opt \<noteq> None"
    have "\<forall>opt \<in> set opts. filterCallback labelOf [] opt"
      using total by (auto simp: filterCallback_def toLowerCase_def includes_empty split: option.splits)
    then show "filteredOptions labelOf [] opts = opts"
      by (simp add: filteredOptions_filter)
  qed
qed

text \<open>
  The specification's example: the query \<open>al\<close> keeps \<open>Alpha\<close> only, and the empty
  query keeps both options in their order.
\<close>

theorem filteredOptions_spec_witness:
  "getOptionLabel exampleProps (1, ''Alpha'') \<noteq> None \<and>
   getOptionLabel exampleProps (2, ''Beta'') \<noteq> None \<and>
   filteredOptions (getOptionLabel exampleProps) [] (options exampleProps)
     = [(1, ''Alpha''), (2, ''Beta'')] \<and>
   spec_filteredOptions (getOptionLabel exampleProps) ''al'' (options exampleProps)
     = [(1, ''Alpha'')]"
proof -
  have total: "\<forall>opt \<in> set (options exampleProps). getOptionLabel exampleProps opt \<noteq> None"
    by (simp add: exampleProps_def)
  have run: "filteredOptions (getOptionLabel exampleProps) ''al'' (options exampleProps)
               = [(1, ''Alpha'')]"
    by (simp add: exampleProps_def filterCallback_def toLowerCase_def toLowerChar_def)
  show ?thesis
    using total run
      filteredOptions_spec [of "getOptionLabel exampleProps" "''al''" "options exampleProps"]
      filteredOptions_spec [of "getOptionLabel exampleProps" "[]" "options exampleProps"]
    by (simp add: exampleProps_def)
qed

section \<open>Committing a selection\<close>

text \<open>
  C10. When \<open>getOptionValue\<close> throws during \<open>handleSelect\<close>, the handler returns
  the state it was given and the trace of \<open>onChange\<close> calls is as before: the
  callback was not called. When \<open>onChange\<close> throws, it has been called once with
  the option's value, and \<open>isOpen\<close>, \<open>searchTerm\<close> and \<open>highlightedIndex\<close> keep their
  prior values. In both cases the exception stays inside the handler.
\<close>

theorem handleSelect_exception_safe:
  "(getOptionValue P opt = None \<longrightarrow> handleSelect P opt s = s) \<and>
   (\<forall>v. getOptionValue P opt = Some v \<and> \<not> onChange P v \<longrightarrow>
      isOpen (handleSelect P opt s) = isOpen s \<and>
      searchTerm (handleSelect P opt s) = searchTerm s \<and>
      highlightedIndex (handleSelect P opt s) = highlightedIndex s \<and>
      onChangeCalls (handleSelect P opt s) = onChangeCalls s @ [v])"
  by (simp add: handleSelect_def Let_def)

text \<open>
  With accessors that throw on the first option and a callback that throws on
  every value: selecting the first option changes nothing, selecting the second
  one calls \<open>onChange 2\<close> and leaves the list open.
\<close>

theorem handleSelect_exception_safe_witness:
  "getOptionValue throwingProps (1, ''Alpha'') = None \<and>
   handleSelect throwingProps (1, ''Alpha'') initialCombobox = initialCombobox \<and>
   getOptionValue throwingProps (2, ''Beta'') = Some 2 \<and> \<not> onChange throwingProps 2 \<and>
   isOpen (handleSelect throwingProps (2, ''Beta'') (initialCombobox\<lparr>isOpen := True\<rparr>)) = True \<and>
   onChangeCalls (handleSelect throwingProps (2, ''Beta'') (initialCombobox\<lparr>isOpen := True\<rparr>))
     = [2]"
proof -
  have a: "getOptionValue throwingProps (1, ''Alpha'') = None"
    by (simp add: throwingProps_def)
  have b: "getOptionValue throwingProps (2, ''Beta'') = Some 2 \<and> \<not> onChange throwingProps 2"
    by (simp add: throwingProps_def)
  show ?thesis
    using a b
      handleSelect_exception_safe [of throwingProps "(1, ''Alpha'')" initialCombobox]
      handleSelect_exception_safe
        [of throwingProps "(2, ''Beta'')" "initialCombobox\<lparr>isOpen := True\<rparr>"]
    by (simp add: initialCombobox_def)
qed

section \<open>Closing the widget\<close>

text \<open>
  C6. The claim is that a closed widget always has an empty query and no
  highlight. Two closing paths of the source only call \<open>setIsOpen(false)\<close>: after
  focusing the field and typing \<open>al\<close>, Enter (no highlight) closes the widget with
  the query \<open>al\<close> still in place; after focusing and one ArrowDown, a click on the
  field closes it with the highlight still at index 0. Escape, the outside
  click and \<open>handleSelect\<close> reset all three pieces of state.
\<close>

theorem enter_and_toggle_close_without_reset:
  "combobox_run exampleProps [Focus, InputChange ''al'', KeyDown Enter]
     = \<lparr>isOpen = False, searchTerm = ''al'', highlightedIndex = -1, onChangeCalls = []\<rparr> \<and>
   combobox_run exampleProps [Focus, KeyDown ArrowDown, ToggleClick]
     = \<lparr>isOpen = False, searchTerm = [], highlightedIndex = 0, onChangeCalls = []\<rparr>"
  by (simp add: combobox_run_def combobox_step_def initialCombobox_def handleFocus_def
      handleInputChange_def handleKeyDown_def toggleClick_def visibleOptions_def
      exampleProps_def filterCallback_def toLowerCase_def toLowerChar_def)

section \<open>The ArrowUp key\<close>




section \<open>Constraining the width\<close>

lemmas parseFloat_defs =
  parseFloat_def unsignedDecimalLiteral_def isStrWhiteSpaceChar_def isDecimalDigit_def
  digitsValue_def exponentPart_def scale10_def signedInteger_def

lemmas layout_defs =
  layout_run_def layout_step_def handleMouseMove_def handleMouseUp_def
  handleCollapseAnalysis_def handleCollapseChatbot_def handleExpandBoth_def handleResize_def
  App_init_def initChatbotWidth_def initChatbotVisible_def newWidth_def Math_max_def
  Math_min_def container_def

text \<open>
  \<open>Math.max(lo, Math.min(hi, x))\<close> lies between the bounds for every \<open>x\<close> that is
  not \<open>NaN\<close>, infinite or not; this covers the bounds of both revisions of the
  file. On \<open>NaN\<close> it is \<open>NaN\<close>.
\<close>

lemma constrain_between:
  "lo \<le> hi \<Longrightarrow> x \<noteq> NaN \<Longrightarrow>
   \<exists>r. Math_max (Fin lo) (Math_min (Fin hi) x) = Fin r \<and> lo \<le> r \<and> r \<le> hi"
  by (cases x) (auto simp: Math_max_def Math_min_def)

lemma constrain_NaN: "Math_max lo (Math_min hi NaN) = NaN"
  by (simp add: Math_max_def Math_min_def)

lemma constrain_inRange: "x \<noteq> NaN \<Longrightarrow> inRange (Math_max (Fin 5) (Math_min (Fin 95) x))"
  using constrain_between [of 5 95 x] by (auto simp: inRange_def)

lemma js_minus_NaN_right: "js_minus a NaN = NaN"
  by (cases a) simp_all

lemma newWidth_NaN: "newWidth containerRect NaN = NaN"
  by (simp add: newWidth_def js_minus_NaN_right)

text \<open>
  With finite coordinates and a container of non-zero width the raw width is
  the finite number of the formula, so such a pointer move is never excluded.
\<close>

lemma newWidth_finite:
  "w \<noteq> 0 \<Longrightarrow>
   newWidth \<lparr>left = Fin l, width = Fin w\<rparr> (Fin x) = Fin ((w - (x - l)) / w * 100)"
  by (simp add: newWidth_def)

lemma rawWidthIsNumber_finite: "w \<noteq> 0 \<Longrightarrow> rawWidthIsNumber (MouseMove (container l w) (Fin x))"
  by (simp add: rawWidthIsNumber_def container_def newWidth_finite)

lemma handleMouseMove_cases:
  "handleMouseMove s resizeRef clientX = s \<or>
   (\<exists>containerRect. resizeRef = Some (Element (Some containerRect)) \<and>
      handleMouseMove s resizeRef clientX =
        s\<lparr>chatbotWidth :=
             Math_max (Fin 5) (Math_min (Fin 95) (newWidth containerRect clientX))\<rparr>)"
proof (cases resizeRef)
  case None
  then show ?thesis by (simp add: handleMouseMove_def)
next
  case (Some el)
  then show ?thesis
    by (cases el) (auto simp: handleMouseMove_def split: option.splits)
qed

lemma layout_step_inRange:
  assumes "inRange (chatbotWidth s)" and "rawWidthIsNumber e"
  shows "inRange (chatbotWidth (layout_step s e))"
proof (cases e)
  case (MouseMove resizeRef clientX)
  from handleMouseMove_cases [of s resizeRef clientX] show ?thesis
  proof
    assume "handleMouseMove s resizeRef clientX = s"
    then show ?thesis using assms MouseMove by (simp add: layout_step_def)
  next
    assume "\<exists>containerRect. resizeRef = Some (Element (Some containerRect)) \<and>
      handleMouseMove s resizeRef clientX =
        s\<lparr>chatbotWidth :=
             Math_max (Fin 5) (Math_min (Fin 95) (newWidth containerRect clientX))\<rparr>"
    then obtain containerRect where
      r: "resizeRef = Some (Element (Some containerRect))" and
      h: "handleMouseMove s resizeRef clientX =
        s\<lparr>chatbotWidth :=
             Math_max (Fin 5) (Math_min (Fin 95) (newWidth containerRect clientX))\<rparr>"
      by blast
    have "newWidth containerRect clientX \<noteq> NaN"
      using assms(2) MouseMove r by (simp add: rawWidthIsNumber_def)
    then show ?thesis using h MouseMove by (simp add: layout_step_def constrain_inRange)
  qed
qed (use assms in \<open>simp_all add: layout_step_def handleCollapseAnalysis_def
      handleCollapseChatbot_def handleExpandBoth_def handleMouseUp_def handleResize_def
      inRange_def\<close>)

lemma layout_run_inRange:
  "inRange (chatbotWidth s) \<Longrightarrow> \<forall>e \<in> set es. rawWidthIsNumber e \<Longrightarrow>
   inRange (chatbotWidth (layout_run s es))"
  unfolding layout_run_def
  by (induction es arbitrary: s) (simp_all add: layout_step_inRange)

lemma App_init_inRange: "savedWidthInRange st \<Longrightarrow> inRange (chatbotWidth (App_init st w))"
  by (auto simp: savedWidthInRange_def App_init_def initChatbotWidth_def inRange_def
      split: option.splits)

lemma draggingApp_eq:
  "draggingApp = \<lparr>chatbotWidth = Fin 20, isDesktop = True, isChatbotVisible = True,
     isAnalysisCollapsed = False, isChatbotCollapsed = False, isResizing = True\<rparr>"
  by (simp add: draggingApp_def layout_run_def layout_step_def App_init_def
      initChatbotWidth_def initChatbotVisible_def)

text \<open>
  C1, as stated, fails. Construction does not constrain what it reads: from a
  store that holds \<open>200\<close> the width is 200. And during a drag on a container of
  width 0 with the pointer at its left edge the raw width is \<open>0 / 0\<close>, which the
  two bounds let through as \<open>NaN\<close>.
\<close>

theorem chatbotWidth_in_range_counterexample:
  "\<not> inRange (chatbotWidth (App_init [''chatbotWidth'' \<mapsto> ''200''] 1280)) \<and>
   chatbotWidth (App_init [''chatbotWidth'' \<mapsto> ''200''] 1280) = Fin 200 \<and>
   inRange (chatbotWidth draggingApp) \<and>
   \<not> inRange (chatbotWidth (layout_step draggingApp (MouseMove (container 0 0) (Fin 0)))) \<and>
   chatbotWidth (layout_step draggingApp (MouseMove (container 0 0) (Fin 0))) = NaN"
  by (simp add: draggingApp_def layout_defs inRange_def parseFloat_defs)

text \<open>
  C1, amended. When the store has no \<open>chatbotWidth\<close> entry, an empty one, or one
  that \<open>parseFloat\<close> reads as a number between 5 and 95, the width is between 5
  and 95 after construction, and it stays there under every sequence of events
  in which no pointer move computes a \<open>NaN\<close> raw width.
\<close>

theorem chatbotWidth_in_range:
  assumes "savedWidthInRange localStorage" and "\<forall>e \<in> set es. rawWidthIsNumber e"
  shows "inRange (chatbotWidth (layout_run (App_init localStorage innerWidth) es))"
  using assms by (simp add: layout_run_inRange App_init_inRange)

text \<open>
  A drag on a container of width 1000 at the left edge 0, from the stored width
  33.33: the pointer at 50 asks for 95, the pointer at 400 for 60.
\<close>

theorem chatbotWidth_in_range_witness:
  "savedWidthInRange [''chatbotWidth'' \<mapsto> ''33.33''] \<and>
   rawWidthIsNumber SeparatorMouseDown \<and>
   rawWidthIsNumber (MouseMove (container 0 1000) (Fin 50)) \<and>
   rawWidthIsNumber (MouseMove (container 0 1000) (Fin 400)) \<and>
   rawWidthIsNumber MouseUp \<and>
   inRange (chatbotWidth (layout_run (App_init [''chatbotWidth'' \<mapsto> ''33.33''] 1280)
      [SeparatorMouseDown, MouseMove (container 0 1000) (Fin 50),
       MouseMove (container 0 1000) (Fin 400), MouseUp])) \<and>
   chatbotWidth (layout_run (App_init [''chatbotWidth'' \<mapsto> ''33.33''] 1280)
      [SeparatorMouseDown, MouseMove (container 0 1000) (Fin 50),
       MouseMove (container 0 1000) (Fin 400), MouseUp]) = Fin 60"
proof -
  have a: "savedWidthInRange [''chatbotWidth'' \<mapsto> ''33.33'']"
    by (simp add: savedWidthInRange_def inRange_def parseFloat_defs)
  have b: "\<forall>e \<in> set [SeparatorMouseDown, MouseMove (container 0 1000) (Fin 50),
                MouseMove (container 0 1000) (Fin 400), MouseUp].
      rawWidthIsNumber e"
    by (simp add: rawWidthIsNumber_def container_def newWidth_def)
  have c: "chatbotWidth (layout_run (App_init [''chatbotWidth'' \<mapsto> ''33.33''] 1280)
      [SeparatorMouseDown, MouseMove (container 0 1000) (Fin 50),
       MouseMove (container 0 1000) (Fin 400), MouseUp]) = Fin 60"
    by (simp add: layout_defs)
  show ?thesis
    using a b c chatbotWidth_in_range [OF a b, of 1280] by simp
qed

section \<open>Pointer moves that are not numbers or meet no container\<close>

text \<open>
  C2, as stated, fails: during a drag at width 20, a pointer move whose
  \<open>clientX\<close> is \<open>NaN\<close> changes the state, and the width becomes \<open>NaN\<close>.
\<close>

theorem updateResize_NaN_counterexample:
  "isResizing draggingApp \<and> chatbotWidth draggingApp = Fin 20 \<and>
   handleMouseMove draggingApp (container 0 1000) NaN \<noteq> draggingApp \<and>
   chatbotWidth (handleMouseMove draggingApp (container 0 1000) NaN) = NaN"
  by (simp add: draggingApp_eq handleMouseMove_def container_def newWidth_NaN constrain_NaN)

text \<open>
  C2, amended. A pointer move whose \<open>clientX\<close> is \<open>NaN\<close> raises no error and
  changes no field other than the width. While a drag is open and the separator
  has a parent container the width becomes \<open>NaN\<close>; otherwise the state is
  unchanged.
\<close>

theorem updateResize_NaN:
  "handleMouseMove s resizeRef NaN =
     (if isResizing s \<and> (\<exists>containerRect. resizeRef = Some (Element (Some containerRect)))
      then s\<lparr>chatbotWidth := NaN\<rparr> else s)"
proof (cases resizeRef)
  case None
  then show ?thesis by (simp add: handleMouseMove_def)
next
  case (Some el)
  then show ?thesis
    by (cases el) (auto simp: handleMouseMove_def newWidth_NaN constrain_NaN split: option.splits)
qed

theorem updateResize_NaN_witness:
  "handleMouseMove draggingApp (container 0 1000) NaN = draggingApp\<lparr>chatbotWidth := NaN\<rparr> \<and>
   handleMouseMove (handleMouseUp draggingApp) (container 0 1000) NaN = handleMouseUp draggingApp \<and>
   handleMouseMove draggingApp None NaN = draggingApp"
  using updateResize_NaN [of draggingApp "container 0 1000"]
    updateResize_NaN [of "handleMouseUp draggingApp" "container 0 1000"]
    updateResize_NaN [of draggingApp None]
  by (simp add: draggingApp_eq container_def handleMouseUp_def)

text \<open>
  C3, as stated, fails on the container of width 0: during a drag at width 20
  with the pointer at 50, the raw width is \<open>-50 / 0 * 100\<close>, negative infinity,
  and the width becomes 5.
\<close>

theorem updateResize_degenerate_counterexample:
  "isResizing draggingApp \<and> chatbotWidth draggingApp = Fin 20 \<and>
   width \<lparr>left = Fin 0, width = Fin 0\<rparr> = Fin 0 \<and>
   handleMouseMove draggingApp (Some (Element (Some \<lparr>left = Fin 0, width = Fin 0\<rparr>))) (Fin 50)
     \<noteq> draggingApp \<and>
   chatbotWidth (handleMouseMove draggingApp
     (Some (Element (Some \<lparr>left = Fin 0, width = Fin 0\<rparr>))) (Fin 50)) = Fin 5"
  by (simp add: draggingApp_eq handleMouseMove_def newWidth_def Math_max_def Math_min_def)

text \<open>
  C3, amended. A pointer move leaves the state unchanged, and raises no error,
  whenever no drag is open, the separator element is missing, or the separator
  has no parent container.
\<close>

theorem updateResize_noop:
  "\<not> isResizing s \<or> resizeRef = None \<or> resizeRef = Some (Element None) \<Longrightarrow>
   handleMouseMove s resizeRef clientX = s"
  by (auto simp: handleMouseMove_def)

theorem updateResize_noop_witness:
  "\<not> isResizing (App_init Map.empty 1280) \<and>
   handleMouseMove (App_init Map.empty 1280) (container 0 1000) (Fin 50)
     = App_init Map.empty 1280 \<and>
   handleMouseMove draggingApp None (Fin 50) = draggingApp \<and>
   handleMouseMove draggingApp (Some (Element None)) (Fin 50) = draggingApp"
proof -
  have a: "\<not> isResizing (App_init Map.empty 1280)" by (simp add: App_init_def)
  show ?thesis
    using a
      updateResize_noop [of "App_init Map.empty 1280" "container 0 1000" "Fin 50"]
      updateResize_noop [of draggingApp None "Fin 50"]
      updateResize_noop [of draggingApp "Some (Element None)" "Fin 50"]
    by simp
qed

section \<open>The collapse flags\<close>

lemma layout_step_exclusive:
  "\<not> (isAnalysisCollapsed s \<and> isChatbotCollapsed s) \<Longrightarrow>
   \<not> (isAnalysisCollapsed (layout_step s e) \<and> isChatbotCollapsed (layout_step s e))"
  by (cases e)
    (auto simp: layout_step_def handleCollapseAnalysis_def handleCollapseChatbot_def
      handleExpandBoth_def handleMouseUp_def handleResize_def handleMouseMove_def
      split: option.splits)

lemma layout_run_exclusive:
  "\<not> (isAnalysisCollapsed s \<and> isChatbotCollapsed s) \<Longrightarrow>
   \<not> (isAnalysisCollapsed (layout_run s es) \<and> isChatbotCollapsed (layout_run s es))"
  unfolding layout_run_def
proof (induction es arbitrary: s)
  case Nil
  then show ?case by simp
next
  case (Cons e es)
  from Cons.prems
  have "\<not> (isAnalysisCollapsed (layout_step s e) \<and> isChatbotCollapsed (layout_step s e))"
    by (rule layout_step_exclusive)
  then show ?case using Cons.IH by simp
qed

text \<open>
  C5. In every state that a sequence of events reaches from a freshly
  constructed \<open>App\<close>, \<open>isAnalysisCollapsed\<close> and \<open>isChatbotCollapsed\<close> are not both
  true. Each collapse handler clears the other flag, and from any state,
  collapsing the analysis and then the chat leaves the analysis flag false and
  the chat flag true.
\<close>

theorem collapse_flags_exclusive:
  "\<not> (isAnalysisCollapsed (layout_run (App_init localStorage innerWidth) es) \<and>
      isChatbotCollapsed (layout_run (App_init localStorage innerWidth) es)) \<and>
   isChatbotCollapsed (handleCollapseAnalysis s) = False \<and>
   isAnalysisCollapsed (handleCollapseChatbot s) = False \<and>
   isAnalysisCollapsed (handleCollapseChatbot (handleCollapseAnalysis s)) = False \<and>
   isChatbotCollapsed (handleCollapseChatbot (handleCollapseAnalysis s)) = True"
proof -
  have "\<not> (isAnalysisCollapsed (App_init localStorage innerWidth) \<and>
            isChatbotCollapsed (App_init localStorage innerWidth))"
    by (simp add: App_init_def)
  then show ?thesis
    using layout_run_exclusive [of "App_init localStorage innerWidth" es]
    by (simp add: handleCollapseAnalysis_def handleCollapseChatbot_def)
qed

theorem collapse_flags_exclusive_witness:
  "isAnalysisCollapsed
     (layout_run (App_init Map.empty 1280) [CollapseAnalysis, CollapseChatbot]) = False \<and>
   isChatbotCollapsed
     (layout_run (App_init Map.empty 1280) [CollapseAnalysis, CollapseChatbot]) = True \<and>
   isAnalysisCollapsed (handleCollapseChatbot (handleCollapseAnalysis draggingApp)) = False"
proof -
  have "isChatbotCollapsed
          (layout_run (App_init Map.empty 1280) [CollapseAnalysis, CollapseChatbot])"
    by (simp add: layout_run_def layout_step_def handleCollapseAnalysis_def
        handleCollapseChatbot_def)
  then show ?thesis
    using collapse_flags_exclusive
      [of Map.empty 1280 "[CollapseAnalysis, CollapseChatbot]" draggingApp]
    by simp
qed

section \<open>Reading the stored preferences\<close>

text \<open>
  C8, as stated, fails: the stored width \<open>abc\<close> is read as \<open>NaN\<close>, not as the
  default 20, and the stored visibility \<open>yes\<close> is read as \<open>false\<close>, not as the
  default \<open>true\<close>.
\<close>

theorem init_fallback_counterexample:
  "chatbotWidth (App_init [''chatbotWidth'' \<mapsto> ''abc''] 1280) = NaN \<and>
   chatbotWidth (App_init [''chatbotWidth'' \<mapsto> ''abc''] 1280) \<noteq> Fin 20 \<and>
   isChatbotVisible (App_init [''chatbotVisible'' \<mapsto> ''yes''] 1280) = False"
  by (simp add: App_init_def initChatbotWidth_def initChatbotVisible_def parseFloat_defs)

text \<open>
  C8, amended. Construction raises no error on any store. A field whose entry
  is absent or the empty string takes its default, 20 for the width and \<open>true\<close>
  for the visibility. A non-empty entry is used as it is: the width is
  \<open>parseFloat\<close> of the string (\<open>NaN\<close> when it has no numeric prefix) and the
  visibility is the comparison of the string with \<open>true\<close>.
\<close>

theorem init_fallback:
  "(localStorage ''chatbotWidth'' = None \<or> localStorage ''chatbotWidth'' = Some [] \<longrightarrow>
      chatbotWidth (App_init localStorage innerWidth) = Fin 20) \<and>
   (localStorage ''chatbotVisible'' = None \<or> localStorage ''chatbotVisible'' = Some [] \<longrightarrow>
      isChatbotVisible (App_init localStorage innerWidth) = True) \<and>
   (\<forall>saved. localStorage ''chatbotWidth'' = Some saved \<and> saved \<noteq> [] \<longrightarrow>
      chatbotWidth (App_init localStorage innerWidth) = parseFloat saved) \<and>
   (\<forall>saved. localStorage ''chatbotVisible'' = Some saved \<and> saved \<noteq> [] \<longrightarrow>
      isChatbotVisible (App_init localStorage innerWidth) = (saved = ''true''))"
  by (auto simp: App_init_def initChatbotWidth_def initChatbotVisible_def)

theorem init_fallback_witness:
  "chatbotWidth (App_init Map.empty 1280) = Fin 20 \<and>
   isChatbotVisible (App_init Map.empty 1280) = True \<and>
   chatbotWidth (App_init [''chatbotWidth'' \<mapsto> []] 1280) = Fin 20 \<and>
   chatbotWidth
     (App_init [''chatbotWidth'' \<mapsto> ''42.5'', ''chatbotVisible'' \<mapsto> ''false''] 1280)
     = Fin (85 / 2) \<and>
   isChatbotVisible
     (App_init [''chatbotWidth'' \<mapsto> ''42.5'', ''chatbotVisible'' \<mapsto> ''false''] 1280)
     = False"
proof -
  have p: "parseFloat ''42.5'' = Fin (85 / 2)" by (simp add: parseFloat_defs)
  show ?thesis
    using p init_fallback [of Map.empty 1280]
      init_fallback [of "[''chatbotWidth'' \<mapsto> []]" 1280]
      init_fallback
        [of "[''chatbotWidth'' \<mapsto> ''42.5'', ''chatbotVisible'' \<mapsto> ''false'']" 1280]
    by simp
qed

section \<open>Saving the preferences and reading them back\<close>

text \<open>
  The visibility survives the store whatever the store held before: what one
  instance writes, the next one reads back.
\<close>

lemma chatbotVisible_roundtrip:
  "isChatbotVisible (App_init (saveChatbotVisible s localStorage) innerWidth)
     = isChatbotVisible s"
  by (simp add: App_init_def initChatbotVisible_def saveChatbotVisible_def Boolean_toString_def)

text \<open>
  The non-empty string matters: a printer that answered the empty string would
  have the next instance fall back to the default width.
\<close>

lemma empty_string_falls_back:
  "chatbotWidth (App_init (savePreferences (\<lambda>x. []) s localStorage) innerWidth) = Fin 20"
  by (simp add: savePreferences_def saveChatbotWidth_def saveChatbotVisible_def App_init_def
      initChatbotWidth_def)





end
